theory Spec2Isabelle
  imports Complex_Main
begin

section \<open>Python strings\<close>

text \<open>
  A Python \<open>str\<close> is modelled as a \<^typ>\<open>string\<close>: a list of characters, each standing for
  the code point of the same number (U+0000 to U+00FF). The character classes below are
  the ones Python 3 uses for these code points (\<open>str.isspace\<close>, \<open>str.lower\<close>, and the
  categories \<open>\s\<close>, \<open>\d\<close>, \<open>\w\<close> of the \<open>re\<close> module on \<open>str\<close> patterns). Strings with
  code points above U+00FF are outside the model.
\<close>

definition cp :: "char \<Rightarrow> nat" where
  "cp c = of_char c"

definition NL :: char where "NL = CHR 0x0A"
definition SQUOTE :: char where "SQUOTE = CHR 0x27"
definition DQUOTE :: char where "DQUOTE = CHR 0x22"
definition BACKSLASH :: char where "BACKSLASH = CHR 0x5C"

definition py_isspace :: "char \<Rightarrow> bool" where
  "py_isspace c = ((9 \<le> cp c \<and> cp c \<le> 13) \<or> (28 \<le> cp c \<and> cp c \<le> 32)
                    \<or> cp c = 133 \<or> cp c = 160)"

definition py_isdigit :: "char \<Rightarrow> bool" where
  "py_isdigit c = (48 \<le> cp c \<and> cp c \<le> 57)"

definition ascii_upper :: "char \<Rightarrow> bool" where
  "ascii_upper c = (65 \<le> cp c \<and> cp c \<le> 90)"

definition ascii_lower :: "char \<Rightarrow> bool" where
  "ascii_lower c = (97 \<le> cp c \<and> cp c \<le> 122)"

definition ascii_alpha :: "char \<Rightarrow> bool" where
  "ascii_alpha c = (ascii_upper c \<or> ascii_lower c)"

text \<open>\<open>\w\<close>: alphanumeric (\<open>str.isalnum\<close>) or underscore.\<close>

definition py_isword :: "char \<Rightarrow> bool" where
  "py_isword c = (ascii_alpha c \<or> py_isdigit c \<or> cp c = 95
      \<or> cp c = 170 \<or> cp c = 178 \<or> cp c = 179 \<or> cp c = 181 \<or> cp c = 185 \<or> cp c = 186
      \<or> (188 \<le> cp c \<and> cp c \<le> 190)
      \<or> (192 \<le> cp c \<and> cp c \<le> 214) \<or> (216 \<le> cp c \<and> cp c \<le> 246) \<or> 248 \<le> cp c)"

text \<open>\<open>str.lower\<close> on one character: A-Z and the upper-case letters of U+00C0..U+00DE.\<close>

definition lower_char :: "char \<Rightarrow> char" where
  "lower_char c = (if ascii_upper c \<or> (192 \<le> cp c \<and> cp c \<le> 222 \<and> cp c \<noteq> 215)
                   then char_of (cp c + 32) else c)"

definition py_lower :: "string \<Rightarrow> string" where
  "py_lower s = map lower_char s"

text \<open>\<open>str.strip()\<close> with no argument removes leading and trailing whitespace.\<close>

definition py_strip :: "string \<Rightarrow> string" where
  "py_strip s = rev (dropWhile py_isspace (rev (dropWhile py_isspace s)))"

section \<open>Regular expressions of the \<open>re\<close> module\<close>

text \<open>
  The patterns of the source are written as values of \<open>re\<close> and run by a backtracking
  matcher. A matcher state is the character before the current position (\<open>None\<close> at the
  start of the text), the text that remains, and the groups captured so far. \<open>rmatch\<close>
  returns every state in which the pattern can end, in the order in which a backtracking
  engine tries them: the head of the list is the match that Python reports.
\<close>

datatype re =
    Cls "char \<Rightarrow> bool"
  | Eps
  | Seq re re
  | Alt re re
  | Rep bool nat "nat option" re
  | Grp nat re
  | Bref nat
  | Ahead re
  | WordB
  | BolM
  | EolM

type_synonym mstate = "char option \<times> string \<times> (nat \<times> string) list"

definition is_word_opt :: "char option \<Rightarrow> bool" where
  "is_word_opt p = (case p of None \<Rightarrow> False | Some c \<Rightarrow> py_isword c)"

definition next_char :: "string \<Rightarrow> char option" where
  "next_char s = (case s of [] \<Rightarrow> None | c # _ \<Rightarrow> Some c)"

definition consumed :: "string \<Rightarrow> string \<Rightarrow> string" where
  "consumed before after = take (length before - length after) before"

definition last_of :: "char option \<Rightarrow> string \<Rightarrow> char option" where
  "last_of p w = (if w = [] then p else Some (last w))"

text \<open>
  Repetition \<open>r{lo,hi}\<close> (\<open>hi = None\<close>: unbounded), greedy or lazy. The fuel is the length of
  the text, and an iteration has to consume a character: no repeated pattern of the
  source can match the empty string.
\<close>

fun rrep :: "bool \<Rightarrow> (mstate \<Rightarrow> mstate list) \<Rightarrow> nat \<Rightarrow> nat option \<Rightarrow> nat \<Rightarrow> mstate \<Rightarrow> mstate list" where
  "rrep gr f lo hi 0 st = (if lo = 0 then [st] else [])"
| "rrep gr f lo hi (Suc fuel) st =
     (let more = (if hi = Some 0 then []
                  else concat (map (rrep gr f (lo - 1) (map_option (\<lambda>h. h - 1) hi) fuel)
                         (filter (\<lambda>st'. length (fst (snd st')) < length (fst (snd st))) (f st))));
          stop = (if lo = 0 then [st] else [])
      in if gr then more @ stop else stop @ more)"

primrec rmatch :: "re \<Rightarrow> mstate \<Rightarrow> mstate list" where
  "rmatch (Cls P) st =
     (case st of (p, s, g) \<Rightarrow>
        (case s of [] \<Rightarrow> [] | c # cs \<Rightarrow> if P c then [(Some c, cs, g)] else []))"
| "rmatch Eps st = [st]"
| "rmatch (Seq a b) st = concat (map (rmatch b) (rmatch a st))"
| "rmatch (Alt a b) st = rmatch a st @ rmatch b st"
| "rmatch (Rep gr lo hi r) st = rrep gr (rmatch r) lo hi (length (fst (snd st))) st"
| "rmatch (Grp n r) st =
     (case st of (p, s, g) \<Rightarrow>
        map (\<lambda>(p', s', g'). (p', s', (n, consumed s s') # g')) (rmatch r st))"
| "rmatch (Bref n) st =
     (case st of (p, s, g) \<Rightarrow>
        (case map_of g n of
           None \<Rightarrow> []
         | Some w \<Rightarrow> if take (length w) s = w then [(last_of p w, drop (length w) s, g)] else []))"
| "rmatch (Ahead r) st =
     (case st of (p, s, g) \<Rightarrow>
        (case rmatch r st of [] \<Rightarrow> [] | (p', s', g') # _ \<Rightarrow> [(p, s, g')]))"
| "rmatch WordB st =
     (case st of (p, s, g) \<Rightarrow>
        if is_word_opt p \<noteq> is_word_opt (next_char s) then [st] else [])"
| "rmatch BolM st =
     (case st of (p, s, g) \<Rightarrow> if p = None \<or> p = Some NL then [st] else [])"
| "rmatch EolM st =
     (case st of (p, s, g) \<Rightarrow> if s = [] \<or> next_char s = Some NL then [st] else [])"

text \<open>Pattern syntax: a literal, a literal under \<open>re.IGNORECASE\<close>, \<open>r*\<close>, \<open>r+\<close>, \<open>r?\<close>.\<close>

definition Lit :: "char \<Rightarrow> re" where
  "Lit x = Cls (\<lambda>c. c = x)"

definition LitI :: "char \<Rightarrow> re" where
  "LitI x = Cls (\<lambda>c. lower_char c = lower_char x)"

definition Str :: "string \<Rightarrow> re" where
  "Str xs = foldr (\<lambda>x r. Seq (Lit x) r) xs Eps"

definition StrI :: "string \<Rightarrow> re" where
  "StrI xs = foldr (\<lambda>x r. Seq (LitI x) r) xs Eps"

definition Star :: "re \<Rightarrow> re" where "Star r = Rep True 0 None r"
definition Plus :: "re \<Rightarrow> re" where "Plus r = Rep True 1 None r"
definition LazyStar :: "re \<Rightarrow> re" where "LazyStar r = Rep False 0 None r"
definition Opt :: "re \<Rightarrow> re" where "Opt r = Rep True 0 (Some 1) r"

fun Seqs :: "re list \<Rightarrow> re" where
  "Seqs [] = Eps"
| "Seqs [r] = r"
| "Seqs (r # rs) = Seq r (Seqs rs)"

text \<open>
  \<open>pattern.search(text)\<close>: the first position, from the left, at which the pattern matches,
  and the match found there: the text before the match, the matched text and the rest.
\<close>

fun search_from :: "re \<Rightarrow> string \<Rightarrow> char option \<Rightarrow> string \<Rightarrow> (string \<times> string \<times> string) option" where
  "search_from r before p s =
     (case rmatch r (p, s, []) of
        (p', s', g') # _ \<Rightarrow> Some (rev before, consumed s s', s')
      | [] \<Rightarrow> (case s of [] \<Rightarrow> None | c # cs \<Rightarrow> search_from r (c # before) (Some c) cs))"

definition re_search :: "re \<Rightarrow> string \<Rightarrow> (string \<times> string \<times> string) option" where
  "re_search r s = search_from r [] None s"

text \<open>
  \<open>pattern.sub(repl, text)\<close> for a replacement without group references: the leftmost
  non-overlapping matches are replaced. No pattern that the source substitutes can match
  the empty string; a match that consumes nothing is passed over here.
\<close>

function sub_from :: "re \<Rightarrow> string \<Rightarrow> char option \<Rightarrow> string \<Rightarrow> string" where
  "sub_from r repl p s =
     (case rmatch r (p, s, []) of
        [] \<Rightarrow> (case s of [] \<Rightarrow> [] | c # cs \<Rightarrow> c # sub_from r repl (Some c) cs)
      | st # _ \<Rightarrow>
          if length (fst (snd st)) < length s
          then repl @ sub_from r repl (fst st) (fst (snd st))
          else (case s of [] \<Rightarrow> [] | c # cs \<Rightarrow> c # sub_from r repl (Some c) cs))"
  by pat_completeness auto
termination
  by (relation "measure (\<lambda>(r, repl, p, s). length s)") auto

definition re_sub :: "re \<Rightarrow> string \<Rightarrow> string \<Rightarrow> string" where
  "re_sub r repl s = sub_from r repl None s"

section \<open>preprocess.py\<close>

definition not_backslash_nl :: "char \<Rightarrow> bool" where
  "not_backslash_nl c = (c \<noteq> BACKSLASH \<and> c \<noteq> NL)"

definition not_slash_nl :: "char \<Rightarrow> bool" where
  "not_slash_nl c = (c \<noteq> CHR ''/'' \<and> c \<noteq> NL)"

definition is_hexdigit :: "char \<Rightarrow> bool" where
  "is_hexdigit c = (py_isdigit c \<or> (97 \<le> cp c \<and> cp c \<le> 102) \<or> (65 \<le> cp c \<and> cp c \<le> 70))"

definition is_quote :: "char \<Rightarrow> bool" where
  "is_quote c = (c = SQUOTE \<or> c = DQUOTE)"

definition not_nl :: "char \<Rightarrow> bool" where
  "not_nl c = (c \<noteq> NL)"

text \<open>\<^verbatim>\<open>\s+\<close>\<close>
definition WHITESPACE_RE :: re where
  "WHITESPACE_RE = Plus (Cls py_isspace)"

text \<open>\<^verbatim>\<open>[A-Za-z]:\\(?:[^\\\n]+\\)*[^\\\n]+\<close>\<close>
definition WINDOWS_PATH_RE :: re where
  "WINDOWS_PATH_RE =
     Seqs [Cls ascii_alpha, Lit (CHR '':''), Lit BACKSLASH,
           Star (Seq (Plus (Cls not_backslash_nl)) (Lit BACKSLASH)),
           Plus (Cls not_backslash_nl)]"

text \<open>\<^verbatim>\<open>(?:/[^/\n]+)+\<close>\<close>
definition UNIX_PATH_RE :: re where
  "UNIX_PATH_RE = Plus (Seq (Lit (CHR ''/'')) (Plus (Cls not_slash_nl)))"

text \<open>\<^verbatim>\<open>\bline\s+\d+\b\<close> with \<open>re.IGNORECASE\<close>\<close>
definition LINE_NUMBER_RE :: re where
  "LINE_NUMBER_RE = Seqs [WordB, StrI ''line'', Plus (Cls py_isspace), Plus (Cls py_isdigit), WordB]"

text \<open>\<^verbatim>\<open>\b\d+\b\<close>\<close>
definition PLAIN_INT_RE :: re where
  "PLAIN_INT_RE = Seqs [WordB, Plus (Cls py_isdigit), WordB]"

text \<open>\<^verbatim>\<open>\b0x[0-9a-fA-F]+\b\<close>\<close>
definition HEX_RE :: re where
  "HEX_RE = Seqs [WordB, Str ''0x'', Plus (Cls is_hexdigit), WordB]"

text \<open>\<^verbatim>\<open>(['\"])(?:(?=(\\?))\2.)*?\1\<close>\<close>
definition QUOTED_STR_RE :: re where
  "QUOTED_STR_RE =
     Seqs [Grp 1 (Cls is_quote),
           LazyStar (Seqs [Ahead (Grp 2 (Opt (Lit BACKSLASH))), Bref 2, Cls not_nl]),
           Bref 1]"

definition normalize_text :: "string option \<Rightarrow> string" where
  "normalize_text text =
     (case text of
        None \<Rightarrow> []
      | Some text \<Rightarrow>
          (let t = py_lower (py_strip text);
               t = re_sub WINDOWS_PATH_RE ''<PATH>'' t;
               t = re_sub UNIX_PATH_RE ''<PATH>'' t;
               t = re_sub LINE_NUMBER_RE ''line <LINE>'' t;
               t = re_sub HEX_RE ''<HEX>'' t;
               t = re_sub QUOTED_STR_RE ''<STR>'' t;
               t = re_sub PLAIN_INT_RE ''<NUM>'' t;
               t = py_strip (re_sub WHITESPACE_RE '' '' t)
           in t))"

definition combine_inputs :: "string option \<Rightarrow> string option \<Rightarrow> string" where
  "combine_inputs error_text code =
     (let err = (case error_text of None \<Rightarrow> [] | Some e \<Rightarrow> e)
      in case code of
           None \<Rightarrow> err
         | Some c \<Rightarrow> if c \<noteq> [] \<and> py_strip c \<noteq> []
                     then err @ [NL] @ ''<CODE>'' @ [NL] @ c
                     else err)"

section \<open>rules.py\<close>

text \<open>
  Every pattern of \<open>_RULES\<close> but one is compiled with \<open>re.IGNORECASE\<close> and has the shape
  \<open>\b\<close>, literal text, optionally \<open>\b\<close>.
\<close>

definition word_rule :: "string \<Rightarrow> re" where
  "word_rule w = Seqs [WordB, StrI w, WordB]"

definition is_key_char :: "char \<Rightarrow> bool" where
  "is_key_char c = (ascii_alpha c \<or> py_isdigit c \<or> c = CHR ''_'' \<or> c = CHR '' '' \<or> c = CHR ''-'')"

text \<open>\<^verbatim>\<open>^\s*['\"][A-Za-z0-9_ -]{1,40}['\"]\s*$\<close> with \<open>re.MULTILINE\<close>\<close>
definition BARE_KEY_RE :: re where
  "BARE_KEY_RE =
     Seqs [BolM, Star (Cls py_isspace), Cls is_quote, Rep True 1 (Some 40) (Cls is_key_char),
           Cls is_quote, Star (Cls py_isspace), EolM]"

definition RULES :: "(string \<times> re) list" where
  "RULES = [
     (''import_error'', word_rule ''moduleNotFoundError''),
     (''import_error'', word_rule ''importerror''),
     (''import_error'', word_rule ''no module named''),
     (''import_error'', word_rule ''cannot import name''),

     (''syntax_error'', word_rule ''syntaxerror''),
     (''syntax_error'', word_rule ''indentationerror''),
     (''syntax_error'', word_rule ''unexpected indent''),
     (''syntax_error'', word_rule ''expected an indented block''),

     (''type_error'', word_rule ''typeerror''),
     (''type_error'', word_rule ''not callable''),
     (''type_error'', Seqs [WordB, StrI ''unsupported operand type'']),
     (''type_error'', word_rule ''has no len()''),

     (''value_error'', word_rule ''valueerror''),
     (''value_error'', Seqs [WordB, StrI ''invalid literal for int()'']),
     (''value_error'', word_rule ''could not convert string to float''),
     (''value_error'', word_rule ''list.remove(x): x not in list''),

     (''attribute_error'', word_rule ''attributeerror''),
     (''attribute_error'', word_rule ''has no attribute''),
     (''attribute_error'',
        Seqs [WordB, StrI ''nonetype'', WordB, Star (Cls not_nl), WordB, StrI ''has no attribute'', WordB]),

     (''key_error'', word_rule ''keyerror''),
     (''key_error'', BARE_KEY_RE),

     (''index_error'', word_rule ''indexerror''),
     (''index_error'', word_rule ''list index out of range''),

     (''file_error'', word_rule ''filenotfounderror''),
     (''file_error'', word_rule ''permissionerror''),
     (''file_error'', word_rule ''no such file or directory''),
     (''file_error'', word_rule ''permission denied''),

     (''zero_division'', word_rule ''zerodivisionerror''),
     (''zero_division'', word_rule ''division by zero''),
     (''zero_division'', word_rule ''integer division or modulo by zero''),

     (''connection_error'', word_rule ''requests.exceptions.timeout''),
     (''connection_error'', word_rule ''requests.exceptions.connectionerror''),
     (''connection_error'', word_rule ''read timed out''),
     (''connection_error'', word_rule ''connection refused'')
   ]"

text \<open>The loop of \<open>rule_predict\<close> over a rule list: the first rule whose pattern is found.\<close>

fun first_rule :: "(string \<times> re) list \<Rightarrow> string \<Rightarrow> string option" where
  "first_rule [] text = None"
| "first_rule ((family, pattern) # rules) text =
     (if re_search pattern text \<noteq> None then Some family else first_rule rules text)"

definition rule_predict :: "string option \<Rightarrow> string option" where
  "rule_predict error_text =
     (case error_text of
        None \<Rightarrow> None
      | Some e \<Rightarrow>
          if e = [] \<or> py_strip e = [] then None
          else first_rule RULES (py_strip e))"

section \<open>retrieval.py\<close>

text \<open>
  The fitted vectorizer and scikit-learn's \<open>cosine_similarity\<close> are not part of the
  repository: the vectorizer is a function from a text to its feature vector (of any type
  \<open>'v\<close>), the similarity a function of two vectors. Scores are real numbers.
\<close>

datatype error =
    ModelFilesNotFound
  | PlaybooksNotFound
  | PlaybooksNotDict
  | DatasetNotFound
  | VectorizerNotFound
  | CsvColumnsMissing
  | IndexError
  | AttributeError

record SimilarCase =
  sim_id :: string
  error_family :: string
  error_text :: string
  fix_text :: string
  score :: real

text \<open>A row of the data frame read from \<open>data/debug_cases.csv\<close>.\<close>

record row =
  row_id :: string
  row_error_family :: string
  row_error_text :: string
  row_fix_text :: string

record 'v RetrievalIndex =
  df :: "row list"
  vectorizer :: "string \<Rightarrow> 'v"
  matrix :: "'v list"

text \<open>\<open>RetrievalIndex.__init__\<close>\<close>

definition RetrievalIndex_init :: "row list \<Rightarrow> (string \<Rightarrow> 'v) \<Rightarrow> 'v RetrievalIndex" where
  "RetrievalIndex_init rows vec =
     (let texts = map (\<lambda>r. normalize_text (Some (row_error_text r))) rows
      in \<lparr>df = rows, vectorizer = vec, matrix = map vec texts\<rparr>)"

text \<open>
  \<open>numpy.ndarray.argsort()\<close>: the indices that sort the scores in ascending order. The model
  is the stable sort (equal scores keep their index order), which is what numpy's
  insertion sort gives on short arrays and what \<open>kind='stable'\<close> gives on all.
\<close>

definition argsort :: "real list \<Rightarrow> nat list" where
  "argsort sims = sort_key (\<lambda>i. sims ! i) [0..<length sims]"

text \<open>The loop of \<open>query\<close> over \<open>top_idx\<close>; \<open>df.iloc\<close> raises on an index out of range.\<close>

definition similar_case :: "row list \<Rightarrow> real list \<Rightarrow> nat \<Rightarrow> SimilarCase" where
  "similar_case rows sims i =
     \<lparr>sim_id = row_id (rows ! i),
      error_family = row_error_family (rows ! i),
      error_text = row_error_text (rows ! i),
      fix_text = row_fix_text (rows ! i),
      score = sims ! i\<rparr>"

fun collect_cases :: "row list \<Rightarrow> real list \<Rightarrow> nat list \<Rightarrow> error + SimilarCase list" where
  "collect_cases rows sims [] = Inr []"
| "collect_cases rows sims (i # idx) =
     (if i < length rows \<and> i < length sims
      then (case collect_cases rows sims idx of
              Inl e \<Rightarrow> Inl e
            | Inr results \<Rightarrow> Inr (similar_case rows sims i # results))
      else Inl IndexError)"

text \<open>\<open>sims.argsort()[::-1][:top_k]\<close>\<close>

definition top_idx :: "real list \<Rightarrow> int \<Rightarrow> nat list" where
  "top_idx sims top_k = take (nat top_k) (rev (argsort sims))"

text \<open>The scores of a query text against every row: \<open>cosine_similarity(q_vec, self.matrix)\<close>.\<close>

definition similarities :: "('v \<Rightarrow> 'v \<Rightarrow> real) \<Rightarrow> 'v RetrievalIndex \<Rightarrow> string \<Rightarrow> real list" where
  "similarities cosine self text =
     (let q = normalize_text (Some text);
          q_vec = vectorizer self q
      in map (cosine q_vec) (matrix self))"

definition query :: "('v \<Rightarrow> 'v \<Rightarrow> real) \<Rightarrow> 'v RetrievalIndex \<Rightarrow> string \<Rightarrow> int \<Rightarrow> error + SimilarCase list" where
  "query cosine self text top_k =
     (if top_k \<le> 0 then Inr []
      else
        (let sims = similarities cosine self text
         in collect_cases (df self) sims (top_idx sims top_k)))"


text \<open>The files that \<open>load_default\<close> reads.\<close>

datatype dataset = DataMissing | DataColumnsMissing | Data "row list"

definition load_default :: "dataset \<Rightarrow> (string \<Rightarrow> 'v) option \<Rightarrow> error + 'v RetrievalIndex" where
  "load_default data_file tfidf_file =
     (case data_file of
        DataMissing \<Rightarrow> Inl DatasetNotFound
      | _ \<Rightarrow>
        (case tfidf_file of
           None \<Rightarrow> Inl VectorizerNotFound
         | Some vec \<Rightarrow>
             (case data_file of
                Data rows \<Rightarrow> Inr (RetrievalIndex_init rows vec)
              | _ \<Rightarrow> Inl CsvColumnsMissing)))"

section \<open>predict.py\<close>

definition LOW_CONF_THRESHOLD :: real where
  "LOW_CONF_THRESHOLD = 35 / 100"

definition TOP_N_ALTERNATIVES :: nat where
  "TOP_N_ALTERNATIVES = 3"

text \<open>
  The classifier loaded from \<open>models/clf.joblib\<close>: its \<open>predict\<close>, its \<open>predict_proba\<close>
  (\<open>None\<close> when the object has no such attribute) and its \<open>classes_\<close>.
\<close>

record 'v classifier =
  predict :: "'v \<Rightarrow> string"
  predict_proba :: "('v \<Rightarrow> real list) option"
  classes :: "string list"

text \<open>
  A section of \<open>playbooks.yaml\<close>: the value under \<open>checklist\<close> when it is a list, and the
  value under \<open>keyword_tips\<close> when it is a dictionary (each tip list when it is a list).
  A family whose value is not a dictionary is mapped to \<open>None\<close>.
\<close>

record pb_section =
  checklist :: "string list option"
  keyword_tips :: "(string \<times> string list option) list option"

type_synonym playbooks = "(string \<times> pb_section option) list"

datatype playbook_file = PlaybookMissing | PlaybookNotDict | Playbook playbooks

record 'v env =
  tfidf_file :: "(string \<Rightarrow> 'v) option"
  clf_file :: "'v classifier option"
  playbooks_yaml :: playbook_file
  data_file :: dataset
  cosine_similarity :: "'v \<Rightarrow> 'v \<Rightarrow> real"

definition load_playbooks :: "playbook_file \<Rightarrow> error + playbooks" where
  "load_playbooks f =
     (case f of
        PlaybookMissing \<Rightarrow> Inl PlaybooksNotFound
      | PlaybookNotDict \<Rightarrow> Inl PlaybooksNotDict
      | Playbook data \<Rightarrow> Inr data)"

definition load_model :: "'v env \<Rightarrow> error + ((string \<Rightarrow> 'v) \<times> 'v classifier)" where
  "load_model e =
     (case tfidf_file e of
        None \<Rightarrow> Inl ModelFilesNotFound
      | Some vec \<Rightarrow>
          (case clf_file e of
             None \<Rightarrow> Inl ModelFilesNotFound
           | Some clf \<Rightarrow> Inr (vec, clf)))"

text \<open>\<open>sorted(pairs, key=lambda t: t[1], reverse=True)\<close>: descending, equal keys in their order.\<close>

definition sorted_desc :: "(string \<times> real) list \<Rightarrow> (string \<times> real) list" where
  "sorted_desc pairs = rev (sort_key snd (rev pairs))"

definition predict_family_ml ::
  "(string \<Rightarrow> 'v) \<Rightarrow> 'v classifier \<Rightarrow> string \<Rightarrow> error + (string \<times> real option \<times> (string \<times> real) list)" where
  "predict_family_ml vec clf combined_text =
     (let x = normalize_text (Some combined_text);
          x_vec = vec x;
          label = predict clf x_vec
      in case predict_proba clf of
           None \<Rightarrow> Inr (label, None, [])
         | Some proba_of \<Rightarrow>
             (let proba = proba_of x_vec;
                  cls = classes clf
              in if length proba < length cls then Inl IndexError
                 else
                   (let pairs = sorted_desc (zip cls proba);
                        top_candidates = take TOP_N_ALTERNATIVES pairs
                    in case top_candidates of
                         [] \<Rightarrow> Inr (label, None, [])
                       | (l, c) # _ \<Rightarrow> Inr (l, Some c, top_candidates))))"

fun starts_with :: "string \<Rightarrow> string \<Rightarrow> bool" where
  "starts_with [] s = True"
| "starts_with (k # ks) [] = False"
| "starts_with (k # ks) (c # cs) = (k = c \<and> starts_with ks cs)"

text \<open>\<open>k in s\<close> on strings\<close>

fun contains :: "string \<Rightarrow> string \<Rightarrow> bool" where
  "contains k [] = (k = [])"
| "contains k (c # cs) = (starts_with k (c # cs) \<or> contains k cs)"

fun dedupe :: "string list \<Rightarrow> string list \<Rightarrow> string list" where
  "dedupe seen [] = []"
| "dedupe seen (x # xs) = (if x \<in> set seen then dedupe seen xs else x # dedupe (x # seen) xs)"

definition playbook_suggestions :: "playbooks \<Rightarrow> string \<Rightarrow> string \<Rightarrow> error + string list" where
  "playbook_suggestions pb family raw_text =
     (case map_of pb family of
        None \<Rightarrow> Inr []
      | Some None \<Rightarrow> Inl AttributeError
      | Some (Some sec) \<Rightarrow>
          (let from_checklist = (case checklist sec of None \<Rightarrow> [] | Some xs \<Rightarrow> xs);
               lowered = py_lower raw_text;
               from_tips =
                 (case keyword_tips sec of
                    None \<Rightarrow> []
                  | Some kts \<Rightarrow>
                      concat (map (\<lambda>(key_phrase, tips).
                                     if contains (py_lower key_phrase) lowered
                                     then (case tips of None \<Rightarrow> [] | Some ts \<Rightarrow> ts)
                                     else []) kts))
           in Inr (dedupe [] (from_checklist @ from_tips))))"

text \<open>
  What a request does, in order: the calls to the collaborators and the blocks printed by
  the \<open>_print_...\<close> functions. A run is the list of its events and the exception that
  ended it, if any.
\<close>

datatype title = FixChecklist | FixChecklistFor string real

datatype event =
    LoadModel
  | PredictML string
  | LoadPlaybooks
  | PrintHeader string string "real option"
  | PrintLowConfidence
  | PrintNoProbability
  | PrintChecklist title "string list"
  | PrintRequestExactError
  | LoadRetrieval
  | Query string int
  | PrintSimilarCases "SimilarCase list"

fun print_candidates :: "playbooks \<Rightarrow> string \<Rightarrow> (string \<times> real) list \<Rightarrow> event list \<times> error option" where
  "print_candidates pb raw_input [] = ([], None)"
| "print_candidates pb raw_input ((fam, sc) # rest) =
     (case playbook_suggestions pb fam raw_input of
        Inl e \<Rightarrow> ([], Some e)
      | Inr suggestions \<Rightarrow>
          (case print_candidates pb raw_input rest of
             (evs, r) \<Rightarrow> (PrintChecklist (FixChecklistFor fam sc) suggestions # evs, r)))"

definition print_multi_checklists_for_low_confidence ::
  "playbooks \<Rightarrow> (string \<times> real) list \<Rightarrow> string \<Rightarrow> event list \<times> error option" where
  "print_multi_checklists_for_low_confidence pb top_candidates raw_input =
     (if top_candidates = [] then ([PrintNoProbability], None)
      else (case print_candidates pb raw_input top_candidates of
              (evs, r) \<Rightarrow> (PrintLowConfidence # evs, r)))"

text \<open>
  The first part of \<open>main\<close>: the rule classifier on the raw error text and, only when it
  gives no family, the model. The result is (family, method, confidence, top candidates).
\<close>

definition main_classify ::
  "'v env \<Rightarrow> string \<Rightarrow> string option \<Rightarrow>
     event list \<times> (error + (string \<times> string \<times> real option \<times> (string \<times> real) list))" where
  "main_classify e text code =
     (let raw_input = combine_inputs (Some text) code
      in case rule_predict (Some text) of
           Some family \<Rightarrow> ([], Inr (family, ''rules'', None, []))
         | None \<Rightarrow>
             (case load_model e of
                Inl err \<Rightarrow> ([LoadModel], Inl err)
              | Inr (vec, clf) \<Rightarrow>
                  (case predict_family_ml vec clf raw_input of
                     Inl err \<Rightarrow> ([LoadModel, PredictML raw_input], Inl err)
                   | Inr (family, confidence, top_candidates) \<Rightarrow>
                       ([LoadModel, PredictML raw_input],
                        Inr (family, ''ml'', confidence, top_candidates)))))"

definition low_confidence :: "string \<Rightarrow> real option \<Rightarrow> bool" where
  "low_confidence method confidence =
     (method = ''ml'' \<and> (case confidence of None \<Rightarrow> False | Some c \<Rightarrow> c < LOW_CONF_THRESHOLD))"

text \<open>The second part of \<open>main\<close>, from the loading of the playbooks on.\<close>

definition main_report ::
  "'v env \<Rightarrow> string \<Rightarrow> int \<Rightarrow> string \<Rightarrow> string \<Rightarrow> real option \<Rightarrow> (string \<times> real) list \<Rightarrow>
     event list \<times> error option" where
  "main_report e raw_input top_k family method confidence top_candidates =
     (case load_playbooks (playbooks_yaml e) of
        Inl err \<Rightarrow> ([LoadPlaybooks], Some err)
      | Inr pb \<Rightarrow>
          (if low_confidence method confidence
           then
             (case print_multi_checklists_for_low_confidence pb top_candidates raw_input of
                (evs, Some err) \<Rightarrow>
                  ([LoadPlaybooks, PrintHeader family method confidence] @ evs, Some err)
              | (evs, None) \<Rightarrow>
                  ([LoadPlaybooks, PrintHeader family method confidence] @ evs
                     @ [PrintRequestExactError], None))
           else
             (case playbook_suggestions pb family raw_input of
                Inl err \<Rightarrow> ([LoadPlaybooks, PrintHeader family method confidence], Some err)
              | Inr suggestions \<Rightarrow>
                  (case load_default (data_file e) (tfidf_file e) of
                     Inl err \<Rightarrow>
                       ([LoadPlaybooks, PrintHeader family method confidence,
                         PrintChecklist FixChecklist suggestions, LoadRetrieval], Some err)
                   | Inr retrieval \<Rightarrow>
                       (case query (cosine_similarity e) retrieval raw_input top_k of
                          Inl err \<Rightarrow>
                            ([LoadPlaybooks, PrintHeader family method confidence,
                              PrintChecklist FixChecklist suggestions, LoadRetrieval,
                              Query raw_input top_k], Some err)
                        | Inr similar \<Rightarrow>
                            ([LoadPlaybooks, PrintHeader family method confidence,
                              PrintChecklist FixChecklist suggestions, LoadRetrieval,
                              Query raw_input top_k, PrintSimilarCases similar], None))))))"

definition main :: "'v env \<Rightarrow> string \<Rightarrow> string option \<Rightarrow> int \<Rightarrow> event list \<times> error option" where
  "main e text code top_k =
     (case main_classify e text code of
        (evs, Inl err) \<Rightarrow> (evs, Some err)
      | (evs, Inr (family, method, confidence, top_candidates)) \<Rightarrow>
          (case main_report e (combine_inputs (Some text) code) top_k
                  family method confidence top_candidates of
             (evs', r) \<Rightarrow> (evs @ evs', r)))"

section \<open>A small installation, for running the definitions\<close>

definition sample_rows :: "row list" where
  "sample_rows =
     [\<lparr>row_id = ''case_0001'', row_error_family = ''key_error'',
       row_error_text = ''KeyError: user_id'', row_fix_text = ''Use dict.get with a default.''\<rparr>,
      \<lparr>row_id = ''case_0002'', row_error_family = ''type_error'',
       row_error_text = ''TypeError: int is not callable'', row_fix_text = ''Rename the variable.''\<rparr>,
      \<lparr>row_id = ''case_0003'', row_error_family = ''key_error'',
       row_error_text = ''KeyError: user_id'', row_fix_text = ''Check the key first.''\<rparr>]"

definition sample_clf :: "string classifier" where
  "sample_clf =
     \<lparr>predict = (\<lambda>v. ''type_error''),
      predict_proba = Some (\<lambda>v. [25 / 100, 17 / 100, 30 / 100, 28 / 100]),
      classes = [''attribute_error'', ''key_error'', ''type_error'', ''value_error'']\<rparr>"

definition sample_playbooks :: playbooks where
  "sample_playbooks =
     [(''type_error'', Some \<lparr>checklist = Some [''Check the types of the operands.''],
                             keyword_tips = Some [(''callable'', Some [''Do not shadow a function name.''])]\<rparr>),
      (''value_error'', Some \<lparr>checklist = Some [''Validate the value before converting.''],
                              keyword_tips = None\<rparr>),
      (''key_error'', Some \<lparr>checklist = Some [''Use dict.get with a default.''],
                            keyword_tips = None\<rparr>)]"

text \<open>
  The vectorizer of the sample installation keeps the text as it is, and two texts are
  similar (score 1) when they are equal.
\<close>

definition sample_env :: "string env" where
  "sample_env =
     \<lparr>tfidf_file = Some (\<lambda>t. t),
      clf_file = Some sample_clf,
      playbooks_yaml = Playbook sample_playbooks,
      data_file = Data sample_rows,
      cosine_similarity = (\<lambda>a b. if a = b then 1 else 0)\<rparr>"

section \<open>Character classes on the bits of a character\<close>

text \<open>
  The classes, stated on the eight bits of a character (least significant first): these
  equations replace the arithmetic on code points when a definition is evaluated.
\<close>

lemma py_isdigit_bits [code]:
  "py_isdigit (Char b0 b1 b2 b3 b4 b5 b6 b7) =
     (b4 \<and> b5 \<and> \<not> b6 \<and> \<not> b7 \<and> (\<not> b3 \<or> (\<not> b1 \<and> \<not> b2)))"
  by (cases b0; cases b1; cases b2; cases b3; cases b4; cases b5; cases b6; cases b7;
      simp add: py_isdigit_def cp_def)

lemma py_isspace_bits [code]:
  "py_isspace (Char b0 b1 b2 b3 b4 b5 b6 b7) =
     (if b7 then \<not> b6 \<and> \<not> b4 \<and> \<not> b3 \<and> \<not> b1 \<and> ((b5 \<and> \<not> b2 \<and> \<not> b0) \<or> (\<not> b5 \<and> b2 \<and> b0))
      else \<not> b6 \<and>
        (if b5 then \<not> b4 \<and> \<not> b3 \<and> \<not> b2 \<and> \<not> b1 \<and> \<not> b0
         else if b4 then b3 \<and> b2
         else b3 \<and> ((\<not> b2 \<and> (b1 \<or> b0)) \<or> (b2 \<and> \<not> b1))))"
  by (cases b0; cases b1; cases b2; cases b3; cases b4; cases b5; cases b6; cases b7;
      simp add: py_isspace_def cp_def)

lemma ascii_upper_bits [code]:
  "ascii_upper (Char b0 b1 b2 b3 b4 b5 b6 b7) =
     (\<not> b7 \<and> b6 \<and> \<not> b5 \<and> (b0 \<or> b1 \<or> b2 \<or> b3 \<or> b4) \<and> \<not> (b4 \<and> b3 \<and> (b2 \<or> (b1 \<and> b0))))"
  by (cases b0; cases b1; cases b2; cases b3; cases b4; cases b5; cases b6; cases b7;
      simp add: ascii_upper_def cp_def)

lemma ascii_lower_bits [code]:
  "ascii_lower (Char b0 b1 b2 b3 b4 b5 b6 b7) =
     (\<not> b7 \<and> b6 \<and> b5 \<and> (b0 \<or> b1 \<or> b2 \<or> b3 \<or> b4) \<and> \<not> (b4 \<and> b3 \<and> (b2 \<or> (b1 \<and> b0))))"
  by (cases b0; cases b1; cases b2; cases b3; cases b4; cases b5; cases b6; cases b7;
      simp add: ascii_lower_def cp_def)

lemma is_hexdigit_bits [code]:
  "is_hexdigit (Char b0 b1 b2 b3 b4 b5 b6 b7) =
     (\<not> b7 \<and> (if b6 then \<not> b4 \<and> \<not> b3 \<and> (b2 \<or> b1 \<or> b0) \<and> \<not> (b2 \<and> b1 \<and> b0)
               else b5 \<and> b4 \<and> (\<not> b3 \<or> (\<not> b1 \<and> \<not> b2))))"
  by (cases b0; cases b1; cases b2; cases b3; cases b4; cases b5; cases b6; cases b7;
      simp add: is_hexdigit_def py_isdigit_def cp_def)

lemma py_isword_bits [code]:
  "py_isword (Char b0 b1 b2 b3 b4 b5 b6 b7) =
     (if b7 then
        (if b6 then \<not> (b0 \<and> b1 \<and> b2 \<and> \<not> b3 \<and> b4)
         else b5 \<and>
           (if b4 then (\<not> b3 \<and> \<not> b2 \<and> b1) \<or> (\<not> b3 \<and> b2 \<and> \<not> b1 \<and> b0)
                       \<or> (b3 \<and> \<not> b2 \<and> (b1 \<noteq> b0)) \<or> (b3 \<and> b2 \<and> \<not> (b1 \<and> b0))
            else b3 \<and> \<not> b2 \<and> b1 \<and> \<not> b0))
      else
        (if b6 then (b0 \<or> b1 \<or> b2 \<or> b3 \<or> b4) \<and>
                    (\<not> (b4 \<and> b3 \<and> (b2 \<or> (b1 \<and> b0))) \<or> (\<not> b5 \<and> b4 \<and> b3 \<and> b2 \<and> b1 \<and> b0))
         else b5 \<and> b4 \<and> (\<not> b3 \<or> (\<not> b1 \<and> \<not> b2))))"
  by (cases b0; cases b1; cases b2; cases b3; cases b4; cases b5; cases b6; cases b7;
      simp add: py_isword_def ascii_alpha_def ascii_upper_def ascii_lower_def py_isdigit_def cp_def)

lemma lower_char_bits [code]:
  "lower_char (Char b0 b1 b2 b3 b4 b5 b6 b7) =
     (if b6 \<and> \<not> b5 \<and>
         (if b7 then \<not> (b0 \<and> b1 \<and> b2 \<and> b4)
          else (b0 \<or> b1 \<or> b2 \<or> b3 \<or> b4) \<and> \<not> (b4 \<and> b3 \<and> (b2 \<or> (b1 \<and> b0))))
      then Char b0 b1 b2 b3 b4 True b6 b7 else Char b0 b1 b2 b3 b4 b5 b6 b7)"
  by (cases b0; cases b1; cases b2; cases b3; cases b4; cases b5; cases b6; cases b7;
      simp add: lower_char_def ascii_upper_def cp_def char_of_def bit_Suc_0_iff)

section \<open>The rule classifier on blank input\<close>

lemma py_strip_blank: "\<forall>c\<in>set s. py_isspace c \<Longrightarrow> py_strip s = []"
  by (auto simp: py_strip_def dest: set_dropWhileD)

text \<open>
  C7. For every input string that is empty or consists only of whitespace, \<open>rule_predict\<close>
  returns the no-decision value \<open>None\<close>: never a family, and (the function being total on
  strings, with no raising branch in the source) never an exception.
\<close>

theorem rule_predict_blank:
  "\<forall>c\<in>set s. py_isspace c \<Longrightarrow> rule_predict (Some s) = None"
  by (simp add: rule_predict_def py_strip_blank)

theorem rule_predict_blank_witness:
  "list_all py_isspace [CHR '' '', CHR 0x09, NL]
     \<and> rule_predict (Some [CHR '' '', CHR 0x09, NL]) = None"
proof -
  have h: "list_all py_isspace [CHR '' '', CHR 0x09, NL]"
    by code_simp
  then have "\<forall>c\<in>set [CHR '' '', CHR 0x09, NL]. py_isspace c"
    by (simp only: list_all_iff)
  from h rule_predict_blank [OF this] show ?thesis
    by simp
qed

section \<open>The orchestrator\<close>

lemma print_candidates_events:
  "print_candidates pb raw cands = (evs, r) \<Longrightarrow> ev \<in> set evs \<Longrightarrow> \<exists>t s. ev = PrintChecklist t s"
  by (induction cands arbitrary: evs r) (auto split: sum.splits prod.splits)

lemma print_multi_events:
  "print_multi_checklists_for_low_confidence pb cands raw = (evs, r) \<Longrightarrow> ev \<in> set evs \<Longrightarrow>
     (\<exists>t s. ev = PrintChecklist t s) \<or> ev = PrintLowConfidence \<or> ev = PrintNoProbability"
  by (auto simp: print_multi_checklists_for_low_confidence_def split: if_splits prod.splits
           dest: print_candidates_events)

lemma main_report_no_ml:
  "ev \<in> set (fst (main_report e raw k fam m c cands)) \<Longrightarrow> ev \<noteq> LoadModel \<and> (\<forall>x. ev \<noteq> PredictML x)"
  by (auto simp: main_report_def split: sum.splits if_splits prod.splits option.splits
           dest: print_multi_events)

text \<open>
  C5. For every request in which \<open>rule_predict\<close> returns a family, the result of the
  classification is exactly (that family, method \<open>rules\<close>, no confidence, no candidates),
  and the run of \<open>main\<close> neither loads the model nor calls it (no \<open>LoadModel\<close> and no
  \<open>PredictML\<close> event), whatever the model files, the playbooks and the corpus are.
\<close>

theorem rules_exclude_ml:
  assumes "rule_predict (Some text) = Some family"
  shows "main_classify e text code = ([], Inr (family, ''rules'', None, []))
       \<and> LoadModel \<notin> set (fst (main e text code top_k))
       \<and> (\<forall>x. PredictML x \<notin> set (fst (main e text code top_k)))"
proof -
  have c: "main_classify e text code = ([], Inr (family, ''rules'', None, []))"
    using assms by (simp add: main_classify_def)
  have "fst (main e text code top_k) =
          fst (main_report e (combine_inputs (Some text) code) top_k family ''rules'' None [])"
    by (simp add: main_def c split: prod.splits)
  with c main_report_no_ml show ?thesis by metis
qed

theorem rules_exclude_ml_witness:
  "rule_predict (Some ''KeyError: 7'') = Some ''key_error''
     \<and> main_classify sample_env ''KeyError: 7'' None = ([], Inr (''key_error'', ''rules'', None, []))
     \<and> LoadModel \<notin> set (fst (main sample_env ''KeyError: 7'' None 3))
     \<and> (\<forall>x. PredictML x \<notin> set (fst (main sample_env ''KeyError: 7'' None 3)))"
proof -
  have h: "rule_predict (Some ''KeyError: 7'') = Some ''key_error''"
    by code_simp
  show ?thesis
    using h rules_exclude_ml [OF h, of sample_env None 3] by simp
qed

section \<open>The confidence branch\<close>

text \<open>
  A playbook is well formed when the value of every family is a dictionary. For such a
  playbook \<open>_playbook_suggestions\<close> returns a list; \<open>candidate_checklist\<close> is the block that
  the low-confidence branch prints for one candidate.
\<close>

definition well_formed :: "playbooks \<Rightarrow> bool" where
  "well_formed pb = list_all (\<lambda>(family, sec). sec \<noteq> None) pb"

definition suggestions_for :: "playbooks \<Rightarrow> string \<Rightarrow> string \<Rightarrow> string list" where
  "suggestions_for pb family raw_input =
     (case playbook_suggestions pb family raw_input of Inl e \<Rightarrow> [] | Inr s \<Rightarrow> s)"

definition candidate_checklist :: "playbooks \<Rightarrow> string \<Rightarrow> string \<times> real \<Rightarrow> event" where
  "candidate_checklist pb raw_input c =
     PrintChecklist (FixChecklistFor (fst c) (snd c)) (suggestions_for pb (fst c) raw_input)"

lemma well_formed_suggestions:
  "well_formed pb \<Longrightarrow> playbook_suggestions pb fam raw = Inr (suggestions_for pb fam raw)"
proof -
  assume wf: "well_formed pb"
  have "map_of pb fam \<noteq> Some None"
  proof
    assume "map_of pb fam = Some None"
    then have "(fam, None) \<in> set pb" by (rule map_of_SomeD)
    with wf show False by (auto simp: well_formed_def list_all_iff)
  qed
  then show ?thesis
    by (auto simp: playbook_suggestions_def suggestions_for_def Let_def split: option.splits)
qed

lemma print_candidates_well_formed:
  "well_formed pb \<Longrightarrow>
     print_candidates pb raw cands = (map (candidate_checklist pb raw) cands, None)"
  by (induction cands) (auto simp: well_formed_suggestions candidate_checklist_def)

lemma predict_family_ml_conf:
  "predict_family_ml vec clf t = Inr (family, Some c, cands) \<Longrightarrow> cands \<noteq> []"
  by (auto simp: predict_family_ml_def Let_def split: option.splits if_splits list.splits)

lemma main_ml:
  assumes "rule_predict (Some text) = None"
    and "load_model e = Inr (vec, clf)"
    and "predict_family_ml vec clf (combine_inputs (Some text) code) = Inr (family, conf, cands)"
  shows "main e text code top_k =
           (case main_report e (combine_inputs (Some text) code) top_k family ''ml'' conf cands of
              (evs, r) \<Rightarrow> ([LoadModel, PredictML (combine_inputs (Some text) code)] @ evs, r))"
  using assms by (simp add: main_def main_classify_def Let_def)

text \<open>
  C3. For every request that the rules leave undecided and the model classifies with a known
  top probability \<open>c\<close> (the model files and a well-formed playbook being there): when
  \<open>c < 0.35\<close> the run is exactly the loading, the header, the low-confidence notice, one
  fix checklist for every top candidate, in order, and the request for the exact error, and
  it ends there, with no retrieval event; when \<open>c\<close> is not below 0.35 the run prints neither
  the notice nor the request and goes on to load the retrieval index. A top probability
  of 0.30 takes the branch and one of 0.40 does not.
\<close>

theorem low_confidence_branch:
  assumes "rule_predict (Some text) = None"
    and "load_model e = Inr (vec, clf)"
    and "predict_family_ml vec clf (combine_inputs (Some text) code) = Inr (family, Some c, cands)"
    and "playbooks_yaml e = Playbook pb"
    and "well_formed pb"
  shows "(c < LOW_CONF_THRESHOLD \<longrightarrow>
            main e text code top_k =
              ([LoadModel, PredictML (combine_inputs (Some text) code), LoadPlaybooks,
                PrintHeader family ''ml'' (Some c), PrintLowConfidence]
               @ map (candidate_checklist pb (combine_inputs (Some text) code)) cands
               @ [PrintRequestExactError], None))
       \<and> (\<not> c < LOW_CONF_THRESHOLD \<longrightarrow>
            PrintLowConfidence \<notin> set (fst (main e text code top_k))
          \<and> PrintRequestExactError \<notin> set (fst (main e text code top_k))
          \<and> LoadRetrieval \<in> set (fst (main e text code top_k)))
       \<and> low_confidence ''ml'' (Some (30 / 100))
       \<and> \<not> low_confidence ''ml'' (Some (40 / 100))"
proof (intro conjI impI)
  let ?raw = "combine_inputs (Some text) code"
  have ne: "cands \<noteq> []"
    using assms(3) by (rule predict_family_ml_conf)
  have pb: "load_playbooks (playbooks_yaml e) = Inr pb"
    using assms(4) by (simp add: load_playbooks_def)
  note m = main_ml [OF assms(1-3)]
  {
    assume low: "c < LOW_CONF_THRESHOLD"
    have "print_multi_checklists_for_low_confidence pb cands ?raw =
            (PrintLowConfidence # map (candidate_checklist pb ?raw) cands, None)"
      using ne by (simp add: print_multi_checklists_for_low_confidence_def
          print_candidates_well_formed [OF assms(5)])
    with low pb show "main e text code top_k =
              ([LoadModel, PredictML ?raw, LoadPlaybooks,
                PrintHeader family ''ml'' (Some c), PrintLowConfidence]
               @ map (candidate_checklist pb ?raw) cands
               @ [PrintRequestExactError], None)"
      by (simp add: m main_report_def low_confidence_def)
  }
  {
    assume high: "\<not> c < LOW_CONF_THRESHOLD"
    have s: "playbook_suggestions pb family ?raw = Inr (suggestions_for pb family ?raw)"
      using assms(5) by (rule well_formed_suggestions)
    from high pb s show "PrintLowConfidence \<notin> set (fst (main e text code top_k))"
      by (auto simp: m main_report_def low_confidence_def split: sum.splits prod.splits)
    from high pb s show "PrintRequestExactError \<notin> set (fst (main e text code top_k))"
      by (auto simp: m main_report_def low_confidence_def split: sum.splits prod.splits)
    from high pb s show "LoadRetrieval \<in> set (fst (main e text code top_k))"
      by (auto simp: m main_report_def low_confidence_def split: sum.splits prod.splits)
  }
  show "low_confidence ''ml'' (Some (30 / 100))"
    by (simp add: low_confidence_def LOW_CONF_THRESHOLD_def)
  show "\<not> low_confidence ''ml'' (Some (40 / 100))"
    by (simp add: low_confidence_def LOW_CONF_THRESHOLD_def)
qed


lemma sample_predict:
  "predict_family_ml (\<lambda>t. t) sample_clf x =
     Inr (''type_error'', Some (30 / 100),
          [(''type_error'', 30 / 100), (''value_error'', 28 / 100), (''attribute_error'', 25 / 100)])"
  by (simp add: predict_family_ml_def sample_clf_def sorted_desc_def TOP_N_ALTERNATIVES_def Let_def
        numeral_3_eq_3)

lemma sample_well_formed: "well_formed sample_playbooks"
  by (simp add: well_formed_def sample_playbooks_def)

theorem low_confidence_branch_witness:
  "rule_predict (Some ''something odd happened'') = None
   \<and> load_model sample_env = Inr (\<lambda>t. t, sample_clf)
   \<and> predict_family_ml (\<lambda>t. t) sample_clf (combine_inputs (Some ''something odd happened'') None) =
       Inr (''type_error'', Some (30 / 100),
            [(''type_error'', 30 / 100), (''value_error'', 28 / 100), (''attribute_error'', 25 / 100)])
   \<and> playbooks_yaml sample_env = Playbook sample_playbooks
   \<and> well_formed sample_playbooks
   \<and> main sample_env ''something odd happened'' None 3 =
       ([LoadModel, PredictML ''something odd happened'', LoadPlaybooks,
         PrintHeader ''type_error'' ''ml'' (Some (30 / 100)), PrintLowConfidence,
         PrintChecklist (FixChecklistFor ''type_error'' (30 / 100)) [''Check the types of the operands.''],
         PrintChecklist (FixChecklistFor ''value_error'' (28 / 100)) [''Validate the value before converting.''],
         PrintChecklist (FixChecklistFor ''attribute_error'' (25 / 100)) [],
         PrintRequestExactError], None)"
proof -
  have h1: "rule_predict (Some ''something odd happened'') = None"
    by code_simp
  have h2: "load_model sample_env = Inr (\<lambda>t. t, sample_clf)"
    by (simp add: load_model_def sample_env_def)
  have h3: "predict_family_ml (\<lambda>t. t) sample_clf (combine_inputs (Some ''something odd happened'') None) =
       Inr (''type_error'', Some (30 / 100),
            [(''type_error'', 30 / 100), (''value_error'', 28 / 100), (''attribute_error'', 25 / 100)])"
    by (rule sample_predict)
  have h4: "playbooks_yaml sample_env = Playbook sample_playbooks"
    by (simp add: sample_env_def)
  have raw: "combine_inputs (Some ''something odd happened'') None = ''something odd happened''"
    by (simp add: combine_inputs_def)
  have low: "(30 / 100 :: real) < LOW_CONF_THRESHOLD"
    by (simp add: LOW_CONF_THRESHOLD_def)
  have s1: "suggestions_for sample_playbooks ''type_error'' ''something odd happened'' =
              [''Check the types of the operands.'']"
    by code_simp
  have s2: "suggestions_for sample_playbooks ''value_error'' ''something odd happened'' =
              [''Validate the value before converting.'']"
    by code_simp
  have s3: "suggestions_for sample_playbooks ''attribute_error'' ''something odd happened'' = []"
    by code_simp
  from low_confidence_branch [OF h1 h2 h3 h4 sample_well_formed, of 3] low
  have "main sample_env ''something odd happened'' None 3 =
       ([LoadModel, PredictML ''something odd happened'', LoadPlaybooks,
         PrintHeader ''type_error'' ''ml'' (Some (30 / 100)), PrintLowConfidence]
        @ map (candidate_checklist sample_playbooks ''something odd happened'')
            [(''type_error'', 30 / 100), (''value_error'', 28 / 100), (''attribute_error'', 25 / 100)]
        @ [PrintRequestExactError], None)"
    by (simp only: raw)
  then show ?thesis
    using h1 h2 h3 h4 sample_well_formed by (simp add: candidate_checklist_def s1 s2 s3)
qed

section \<open>A classifier without \<open>predict_proba\<close>\<close>

lemma main_report_single_path:
  assumes "playbooks_yaml e = Playbook pb" and "well_formed pb" and "\<not> low_confidence m c"
  shows "\<exists>rest r. main_report e raw k fam m c cands =
           ([LoadPlaybooks, PrintHeader fam m c,
             PrintChecklist FixChecklist (suggestions_for pb fam raw), LoadRetrieval] @ rest, r)"
  using assms
  by (auto simp: main_report_def load_playbooks_def well_formed_suggestions
           split: sum.splits)

text \<open>
  C8. If the loaded classifier has no \<open>predict_proba\<close>, the prediction is the label of
  \<open>predict\<close> with no confidence and no candidates; the low-confidence test fails on an
  unknown confidence; and the run (rules undecided, model files and a well-formed playbook
  there) prints the header and the single fix checklist and goes on to the retrieval.
\<close>

theorem no_predict_proba:
  assumes "predict_proba clf = None"
    and "rule_predict (Some text) = None"
    and "load_model e = Inr (vec, clf)"
    and "playbooks_yaml e = Playbook pb"
    and "well_formed pb"
  shows "predict_family_ml vec clf (combine_inputs (Some text) code) =
           Inr (predict clf (vec (normalize_text (Some (combine_inputs (Some text) code)))), None, [])
       \<and> \<not> low_confidence ''ml'' None
       \<and> (\<exists>rest r. main e text code top_k =
            ([LoadModel, PredictML (combine_inputs (Some text) code), LoadPlaybooks,
              PrintHeader (predict clf (vec (normalize_text (Some (combine_inputs (Some text) code)))))
                ''ml'' None,
              PrintChecklist FixChecklist
                (suggestions_for pb
                   (predict clf (vec (normalize_text (Some (combine_inputs (Some text) code)))))
                   (combine_inputs (Some text) code)),
              LoadRetrieval] @ rest, r))"
proof -
  let ?raw = "combine_inputs (Some text) code"
  let ?label = "predict clf (vec (normalize_text (Some ?raw)))"
  have p: "predict_family_ml vec clf ?raw = Inr (?label, None, [])"
    using assms(1) by (simp add: predict_family_ml_def Let_def)
  have nl: "\<not> low_confidence ''ml'' None"
    by (simp add: low_confidence_def)
  from main_report_single_path [OF assms(4,5) nl]
  obtain rest r where
    "main_report e ?raw top_k ?label ''ml'' None [] =
       ([LoadPlaybooks, PrintHeader ?label ''ml'' None,
         PrintChecklist FixChecklist (suggestions_for pb ?label ?raw), LoadRetrieval] @ rest, r)"
    by blast
  then have "main e text code top_k =
       ([LoadModel, PredictML ?raw, LoadPlaybooks, PrintHeader ?label ''ml'' None,
         PrintChecklist FixChecklist (suggestions_for pb ?label ?raw), LoadRetrieval] @ rest, r)"
    by (simp add: main_ml [OF assms(2,3) p])
  with p nl show ?thesis by blast
qed

theorem no_predict_proba_witness:
  "predict_proba (sample_clf\<lparr>predict_proba := None\<rparr>) = None
   \<and> rule_predict (Some ''something odd happened'') = None
   \<and> load_model (sample_env\<lparr>clf_file := Some (sample_clf\<lparr>predict_proba := None\<rparr>)\<rparr>) =
       Inr (\<lambda>t. t, sample_clf\<lparr>predict_proba := None\<rparr>)
   \<and> playbooks_yaml (sample_env\<lparr>clf_file := Some (sample_clf\<lparr>predict_proba := None\<rparr>)\<rparr>) =
       Playbook sample_playbooks
   \<and> well_formed sample_playbooks
   \<and> predict_family_ml (\<lambda>t. t) (sample_clf\<lparr>predict_proba := None\<rparr>)
        (combine_inputs (Some ''something odd happened'') None) = Inr (''type_error'', None, [])"
proof -
  let ?clf = "sample_clf\<lparr>predict_proba := None\<rparr>"
  let ?env = "sample_env\<lparr>clf_file := Some ?clf\<rparr>"
  have h1: "predict_proba ?clf = None"
    by simp
  have h2: "rule_predict (Some ''something odd happened'') = None"
    by code_simp
  have h3: "load_model ?env = Inr (\<lambda>t. t, ?clf)"
    by (simp add: load_model_def sample_env_def)
  have h4: "playbooks_yaml ?env = Playbook sample_playbooks"
    by (simp add: sample_env_def)
  from no_predict_proba [OF h1 h2 h3 h4 sample_well_formed, of None 3]
  have "predict_family_ml (\<lambda>t. t) ?clf (combine_inputs (Some ''something odd happened'') None) =
          Inr (''type_error'', None, [])"
    by (simp add: sample_clf_def)
  with h1 h2 h3 h4 sample_well_formed show ?thesis
    by blast
qed

section \<open>The retrieval index\<close>









subsection \<open>The order of the results\<close>







subsection \<open>The sample corpus\<close>








section \<open>Masking a line number\<close>

text \<open>
  C9. \<open>normalize_text\<close> applied to \<^verbatim>\<open>File "a.py", line 42\<close> gives
  \<^verbatim>\<open>file <STR>, line <LINE>\<close>: the result contains the masked line number \<^verbatim>\<open>line <LINE>\<close>
  and no occurrence of \<open>42\<close>.
\<close>

theorem normalize_text_line_number:
  "normalize_text (Some (''File '' @ [DQUOTE] @ ''a.py'' @ [DQUOTE] @ '', line 42'')) = ''file <STR>, line <LINE>''
   \<and> contains ''line <LINE>'' (normalize_text (Some (''File '' @ [DQUOTE] @ ''a.py'' @ [DQUOTE] @ '', line 42'')))
   \<and> \<not> contains ''42'' (normalize_text (Some (''File '' @ [DQUOTE] @ ''a.py'' @ [DQUOTE] @ '', line 42'')))"
proof -
  have n: "normalize_text (Some (''File '' @ [DQUOTE] @ ''a.py'' @ [DQUOTE] @ '', line 42'')) = ''file <STR>, line <LINE>''"
    by code_simp
  show ?thesis
    unfolding n by simp
qed

section \<open>The order of the rules\<close>

lemma no_rule_matches_empty: "list_all (\<lambda>(family, pattern). re_search pattern [] = None) RULES"
  by code_simp

lemma first_rule_least:
  "i < length rules \<Longrightarrow> re_search (snd (rules ! i)) t \<noteq> None \<Longrightarrow>
   \<forall>k<i. re_search (snd (rules ! k)) t = None \<Longrightarrow>
   first_rule rules t = Some (fst (rules ! i))"
proof (induction rules arbitrary: i)
  case Nil
  then show ?case by simp
next
  case (Cons r rules)
  obtain family pattern where r: "r = (family, pattern)" by (cases r)
  show ?case
  proof (cases i)
    case 0
    with Cons.prems r show ?thesis by simp
  next
    case (Suc i')
    have "re_search pattern t = None"
      using Cons.prems(3) [rule_format, of 0] Suc r by simp
    moreover have "first_rule rules t = Some (fst (rules ! i'))"
    proof (rule Cons.IH)
      show "i' < length rules" using Cons.prems(1) Suc by simp
      show "re_search (snd (rules ! i')) t \<noteq> None" using Cons.prems(2) Suc by simp
      show "\<forall>k<i'. re_search (snd (rules ! k)) t = None"
        using Cons.prems(3) Suc by auto
    qed
    ultimately show ?thesis using Suc r by simp
  qed
qed

text \<open>
  C4. When the stripped text matches the patterns of two rules of different families, rule
  \<open>i\<close> declared before rule \<open>j\<close>, and \<open>i\<close> is the first rule of the list that matches,
  \<open>rule_predict\<close> returns the family of rule \<open>i\<close> and not that of rule \<open>j\<close>. The hypotheses
  say that the patterns are found, not where: the positions of the matches play no part.
\<close>

theorem rule_precedence:
  assumes "i < j" and "j < length RULES"
    and "re_search (snd (RULES ! i)) (py_strip t) \<noteq> None"
    and "re_search (snd (RULES ! j)) (py_strip t) \<noteq> None"
    and "\<forall>k<i. re_search (snd (RULES ! k)) (py_strip t) = None"
    and "fst (RULES ! i) \<noteq> fst (RULES ! j)"
  shows "rule_predict (Some t) = Some (fst (RULES ! i))
         \<and> rule_predict (Some t) \<noteq> Some (fst (RULES ! j))"
proof -
  have i: "i < length RULES" using assms(1,2) by simp
  have "py_strip t \<noteq> []"
  proof
    assume e: "py_strip t = []"
    have "RULES ! i \<in> set RULES" using i by simp
    then have "re_search (snd (RULES ! i)) [] = None"
      using no_rule_matches_empty by (auto simp: list_all_iff)
    with assms(3) e show False by simp
  qed
  moreover then have "t \<noteq> []" by (auto simp: py_strip_def)
  moreover have "first_rule RULES (py_strip t) = Some (fst (RULES ! i))"
    using i assms(3,5) by (rule first_rule_least)
  ultimately show ?thesis
    using assms(6) by (simp add: rule_predict_def)
qed

text \<open>
  In \<open>KeyError: ImportError\<close> the pattern of \<open>key_error\<close> (rule 19) matches at the start
  of the text and the pattern of \<open>import_error\<close> (rule 1) only after it: the family is
  \<open>import_error\<close>.
\<close>

theorem rule_precedence_witness:
  "(1::nat) < 19 \<and> 19 < length RULES
   \<and> fst (RULES ! 1) = ''import_error'' \<and> fst (RULES ! 19) = ''key_error''
   \<and> re_search (snd (RULES ! 1)) (py_strip ''KeyError: ImportError'') = Some (''KeyError: '', ''ImportError'', [])
   \<and> re_search (snd (RULES ! 19)) (py_strip ''KeyError: ImportError'') = Some ([], ''KeyError'', '': ImportError'')
   \<and> re_search (snd (RULES ! 0)) (py_strip ''KeyError: ImportError'') = None
   \<and> rule_predict (Some ''KeyError: ImportError'') = Some ''import_error''"
proof -
  have len: "19 < length RULES" by (simp add: RULES_def)
  have f1: "fst (RULES ! 1) = ''import_error''" by (simp add: RULES_def)
  have f19: "fst (RULES ! 19) = ''key_error''" by (simp add: RULES_def)
  have m1: "re_search (snd (RULES ! 1)) (py_strip ''KeyError: ImportError'') = Some (''KeyError: '', ''ImportError'', [])"
    by code_simp
  have m19: "re_search (snd (RULES ! 19)) (py_strip ''KeyError: ImportError'') = Some ([], ''KeyError'', '': ImportError'')"
    by code_simp
  have m0: "re_search (snd (RULES ! 0)) (py_strip ''KeyError: ImportError'') = None"
    by code_simp
  have before: "\<forall>k<1. re_search (snd (RULES ! k)) (py_strip ''KeyError: ImportError'') = None"
    using m0 by simp
  have "rule_predict (Some ''KeyError: ImportError'') = Some (fst (RULES ! 1))"
    using rule_precedence [of 1 19 "''KeyError: ImportError''"] len m1 m19 before f1 f19
    by simp
  with len f1 f19 m1 m19 m0 show ?thesis by simp
qed

end
